theory Spec2Isabelle
  imports Main "HOL-Library.Word" "HOL-Library.Multiset"
begin

section \<open>Timestamp-authority verification (pkg/verifier/tsa.go)\<close>

text \<open>
  A shallow embedding of \<^verbatim>\<open>TimestampAuthorityVerifier\<close>: the threshold check and the
  per-token loop of \<^verbatim>\<open>NewVerify\<close>, and the scan over candidate certificate authorities
  of \<^verbatim>\<open>verifySignedTimestamp\<close>. The collaborators the Go code reaches through
  interfaces and imported packages are values and functions handed to the model; every
  call made to one of them is appended to a log, so that the order in which the code
  consults its collaborators can be stated.
\<close>

subsection \<open>Data\<close>

type_synonym bytes = "8 word list"

text \<open>
  A \<^verbatim>\<open>time.Time\<close> is an instant: here the number of nanoseconds from the zero time
  (January 1, year 1, 00:00:00 UTC), negative before it. \<^verbatim>\<open>IsZero\<close>, \<^verbatim>\<open>Before\<close> and
  \<^verbatim>\<open>After\<close> are the methods of the Go standard library; the last two are strict.
\<close>

type_synonym time = int

definition IsZero :: "time \<Rightarrow> bool" where
  "IsZero t = (t = 0)"

definition Before :: "time \<Rightarrow> time \<Rightarrow> bool" where
  "Before t u = (t < u)"

definition After :: "time \<Rightarrow> time \<Rightarrow> bool" where
  "After t u = (u < t)"

text \<open>
  Go's \<^verbatim>\<open>error\<close>: \<^verbatim>\<open>fmt.Errorf("not enough signed timestamps: %d < %d", n, k)\<close> with
  its two numbers, \<^verbatim>\<open>errors.New("unable to verify timestamp")\<close>,
  \<^verbatim>\<open>errors.New("Unable to verify signed timestamps")\<close>, and any other error, which only
  a collaborator creates, with its message.
\<close>

datatype error =
  NotEnoughSignedTimestamps int int
| UnableToVerifyTimestamp
| UnableToVerifySignedTimestamps
| OtherError string

text \<open>
  \<^verbatim>\<open>root.CertificateAuthority\<close>. The certificates are opaque values of a type \<open>'c\<close>
  (parsed, non-nil \<^verbatim>\<open>*x509.Certificate\<close>s).
\<close>

record 'c certificate_authority =
  Root :: 'c
  Intermediates :: "'c list"
  Leaf :: 'c
  ValidityPeriodStart :: time
  ValidityPeriodEnd :: time

text \<open>\<^verbatim>\<open>root.TrustedMaterial\<close>, as far as this file calls it.\<close>

record 'c trusted_material =
  TSACertificateAuthorities :: "'c certificate_authority list"

text \<open>\<^verbatim>\<open>tsaverification.VerifyOpts\<close>, the three fields the code sets.\<close>

record 'c verify_opts =
  Roots :: "'c list"
  Intermediates_opts :: "'c list"
  TSACertificate :: 'c

text \<open>
  An \<^verbatim>\<open>x509.CertPool\<close> is the sequence of the certificates added, without repetition.
\<close>

type_synonym 'c CertPool = "'c list"

definition NewCertPool :: "'c CertPool" where
  "NewCertPool = []"

definition AddCert :: "'c CertPool \<Rightarrow> 'c \<Rightarrow> 'c CertPool" where
  "AddCert pool cert = (if cert \<in> set pool then pool else pool @ [cert])"

datatype ExtKeyUsage =
  ExtKeyUsageAny | ExtKeyUsageServerAuth | ExtKeyUsageClientAuth
| ExtKeyUsageCodeSigning | ExtKeyUsageTimeStamping

text \<open>\<^verbatim>\<open>x509.VerifyOptions\<close>, the four fields the code sets.\<close>

record 'c x509_verify_options =
  CurrentTime :: time
  Roots_x509 :: "'c CertPool"
  Intermediates_x509 :: "'c CertPool"
  KeyUsages :: "ExtKeyUsage list"

text \<open>
  \<^verbatim>\<open>bundle.VerificationContent\<close>: an interface value, given by its method
  \<^verbatim>\<open>ValidAtTime(t, trustedMaterial)\<close>.
\<close>

record 'c verification_content =
  ValidAtTime :: "time \<Rightarrow> 'c trusted_material \<Rightarrow> bool"

text \<open>The signature content of an entity, given by \<^verbatim>\<open>GetSignature()\<close>.\<close>

record signature_content =
  GetSignature :: bytes

text \<open>
  \<^verbatim>\<open>SignedEntity\<close>, given by what its three accessors return. \<^verbatim>\<open>Timestamps()\<close> returns
  a slice together with an error, and the code takes the length of the slice also when
  the error is set, so both are kept; of the other two accessors the value is read only
  when the error is nil.
\<close>

record 'c signed_entity =
  Timestamps :: "bytes list \<times> error option"
  SignatureContent :: "error + signature_content"
  VerificationContent :: "error + 'c verification_content"

text \<open>
  The two functions called from imported packages:
  \<^verbatim>\<open>tsaverification.VerifyTimestampResponse(token, reader(signature), opts)\<close>, which gives
  the \<^verbatim>\<open>Time\<close> of the timestamp it returns or fails (\<open>None\<close>: the code drops the error),
  and the method \<^verbatim>\<open>Verify(opts)\<close> of an \<^verbatim>\<open>x509.Certificate\<close>, whose error is only tested
  against nil.
\<close>

record 'c externals =
  VerifyTimestampResponse :: "bytes \<Rightarrow> bytes \<Rightarrow> 'c verify_opts \<Rightarrow> time option"
  Verify_x509 :: "'c \<Rightarrow> 'c x509_verify_options \<Rightarrow> bool"

record 'c TimestampAuthorityVerifier =
  trustedMaterial :: "'c trusted_material"
  threshold :: int

text \<open>The calls to collaborators, as logged.\<close>

datatype 'c call =
  Call_Timestamps
| Call_SignatureContent
| Call_GetSignature
| Call_VerificationContent
| Call_TSACertificateAuthorities
| Call_VerifyTimestampResponse bytes bytes "'c verify_opts"
| Call_Verify 'c "'c x509_verify_options"
| Call_ValidAtTime time

subsection \<open>\<^verbatim>\<open>verifySignedTimestamp\<close>\<close>

text \<open>
  What the loop over the certificate authorities builds from a candidate (lines 62 to 74
  and 83 to 90): the options of the timestamp verification, the two certificate pools and
  the options of the chain verification at the time \<open>T\<close> of the timestamp.
\<close>

definition trustedRootVerificationOptions :: "'c certificate_authority \<Rightarrow> 'c verify_opts" where
  "trustedRootVerificationOptions ca =
     \<lparr>Roots = [Root ca], Intermediates_opts = Intermediates ca, TSACertificate = Leaf ca\<rparr>"

definition tsaRootCertPool :: "'c certificate_authority \<Rightarrow> 'c CertPool" where
  "tsaRootCertPool ca = AddCert NewCertPool (Root ca)"

definition tsaIntermediateCertPool :: "'c certificate_authority \<Rightarrow> 'c CertPool" where
  "tsaIntermediateCertPool ca = foldl AddCert NewCertPool (Intermediates ca)"

definition verificationOptions :: "'c certificate_authority \<Rightarrow> time \<Rightarrow> 'c x509_verify_options" where
  "verificationOptions ca T =
     \<lparr>CurrentTime = T, Roots_x509 = tsaRootCertPool ca,
      Intermediates_x509 = tsaIntermediateCertPool ca,
      KeyUsages = [ExtKeyUsageTimeStamping]\<rparr>"

text \<open>
  The body of the loop (lines 62 to 110) for one candidate: \<open>None\<close> is \<^verbatim>\<open>continue\<close>,
  \<open>Some T\<close> is \<^verbatim>\<open>return timestamp.Time, nil\<close>.
\<close>

definition verifySignedTimestamp_candidate ::
  "'c externals \<Rightarrow> bytes \<Rightarrow> bytes \<Rightarrow> 'c trusted_material \<Rightarrow> 'c verification_content \<Rightarrow>
   'c certificate_authority \<Rightarrow> 'c call list \<Rightarrow> time option \<times> 'c call list" where
  "verifySignedTimestamp_candidate X signedTimestamp dsseSignatureBytes tm verificationContent ca log =
    (let log1 = log @ [Call_VerifyTimestampResponse signedTimestamp dsseSignatureBytes
                         (trustedRootVerificationOptions ca)]
     in case VerifyTimestampResponse X signedTimestamp dsseSignatureBytes
               (trustedRootVerificationOptions ca) of
          None \<Rightarrow> (None, log1)
        | Some T \<Rightarrow>
            (let log2 = log1 @ [Call_Verify (Leaf ca) (verificationOptions ca T)]
             in if \<not> Verify_x509 X (Leaf ca) (verificationOptions ca T) then (None, log2)
                else if \<not> IsZero (ValidityPeriodStart ca) \<and> Before T (ValidityPeriodStart ca)
                  then (None, log2)
                else if \<not> IsZero (ValidityPeriodEnd ca) \<and> After T (ValidityPeriodEnd ca)
                  then (None, log2)
                else (let log3 = log2 @ [Call_ValidAtTime T]
                      in if \<not> ValidAtTime verificationContent T tm then (None, log3)
                         else (Some T, log3))))"

text \<open>The loop itself: the first candidate that returns ends it.\<close>

fun verifySignedTimestamp_loop ::
  "'c externals \<Rightarrow> bytes \<Rightarrow> bytes \<Rightarrow> 'c trusted_material \<Rightarrow> 'c verification_content \<Rightarrow>
   'c certificate_authority list \<Rightarrow> 'c call list \<Rightarrow> (error + time) \<times> 'c call list" where
  "verifySignedTimestamp_loop X signedTimestamp dsseSignatureBytes tm verificationContent [] log =
     (Inl UnableToVerifySignedTimestamps, log)"
| "verifySignedTimestamp_loop X signedTimestamp dsseSignatureBytes tm verificationContent
     (ca # certAuthorities) log =
     (case verifySignedTimestamp_candidate X signedTimestamp dsseSignatureBytes tm
             verificationContent ca log of
        (Some T, log') \<Rightarrow> (Inr T, log')
      | (None, log') \<Rightarrow>
          verifySignedTimestamp_loop X signedTimestamp dsseSignatureBytes tm verificationContent
            certAuthorities log')"

definition verifySignedTimestamp ::
  "'c externals \<Rightarrow> bytes \<Rightarrow> bytes \<Rightarrow> 'c trusted_material \<Rightarrow> 'c verification_content \<Rightarrow>
   'c call list \<Rightarrow> (error + time) \<times> 'c call list" where
  "verifySignedTimestamp X signedTimestamp dsseSignatureBytes tm verificationContent log =
     verifySignedTimestamp_loop X signedTimestamp dsseSignatureBytes tm verificationContent
       (TSACertificateAuthorities tm) (log @ [Call_TSACertificateAuthorities])"

subsection \<open>\<^verbatim>\<open>NewVerify\<close> and \<^verbatim>\<open>Verify\<close>\<close>

text \<open>The loop over the signed timestamps (lines 46 to 54), with its accumulator.\<close>

fun NewVerify_loop ::
  "'c externals \<Rightarrow> bytes \<Rightarrow> 'c trusted_material \<Rightarrow> 'c verification_content \<Rightarrow>
   bytes list \<Rightarrow> time list \<Rightarrow> 'c call list \<Rightarrow> (error + time list) \<times> 'c call list" where
  "NewVerify_loop X signatureBytes tm verificationContent [] verifiedTimestamps log =
     (Inr verifiedTimestamps, log)"
| "NewVerify_loop X signatureBytes tm verificationContent (timestamp # signedTimestamps)
     verifiedTimestamps log =
     (case verifySignedTimestamp X timestamp signatureBytes tm verificationContent log of
        (Inl err, log') \<Rightarrow> (Inl UnableToVerifyTimestamp, log')
      | (Inr verifiedSignedTimestamp, log') \<Rightarrow>
          NewVerify_loop X signatureBytes tm verificationContent signedTimestamps
            (verifiedTimestamps @ [verifiedSignedTimestamp]) log')"

definition NewVerify ::
  "'c externals \<Rightarrow> 'c TimestampAuthorityVerifier \<Rightarrow> 'c signed_entity \<Rightarrow> 'c call list \<Rightarrow>
   (error + time list) \<times> 'c call list" where
  "NewVerify X p entity log =
    (case Timestamps entity of
       (signedTimestamps, err) \<Rightarrow>
         (let log1 = log @ [Call_Timestamps]
          in if err \<noteq> None \<or> int (length signedTimestamps) < threshold p
             then (Inl (NotEnoughSignedTimestamps (int (length signedTimestamps)) (threshold p)),
                   log1)
             else
               (let log2 = log1 @ [Call_SignatureContent]
                in case SignatureContent entity of
                     Inl err \<Rightarrow> (Inl err, log2)
                   | Inr sigContent \<Rightarrow>
                       (let signatureBytes = GetSignature sigContent;
                            log3 = log2 @ [Call_GetSignature, Call_VerificationContent]
                        in case VerificationContent entity of
                             Inl err \<Rightarrow> (Inl err, log3)
                           | Inr verificationContent \<Rightarrow>
                               NewVerify_loop X signatureBytes (trustedMaterial p)
                                 verificationContent signedTimestamps [] log3))))"

definition Verify ::
  "'c externals \<Rightarrow> 'c TimestampAuthorityVerifier \<Rightarrow> 'c signed_entity \<Rightarrow> 'c call list \<Rightarrow>
   error option \<times> 'c call list" where
  "Verify X p entity log =
    (case NewVerify X p entity log of
       (Inl err, log') \<Rightarrow> (Some err, log')
     | (Inr _, log') \<Rightarrow> (None, log'))"

definition NewTimestampAuthorityVerifier ::
  "'c trusted_material \<Rightarrow> int \<Rightarrow> 'c TimestampAuthorityVerifier" where
  "NewTimestampAuthorityVerifier tm k = \<lparr>trustedMaterial = tm, threshold = k\<rparr>"

subsection \<open>Notions used to state the properties\<close>

text \<open>
  What one candidate answers for a token and which calls it makes, and what
  \<^verbatim>\<open>verifySignedTimestamp\<close> returns and calls, each from an empty log. A token passes all
  the checks of a candidate \<open>ca\<close> when \<open>candidate_time\<close> is \<open>Some T\<close>.
\<close>

definition candidate_time ::
  "'c externals \<Rightarrow> bytes \<Rightarrow> bytes \<Rightarrow> 'c trusted_material \<Rightarrow> 'c verification_content \<Rightarrow>
   'c certificate_authority \<Rightarrow> time option" where
  "candidate_time X tok sig tm vc ca =
     fst (verifySignedTimestamp_candidate X tok sig tm vc ca [])"

definition candidate_calls ::
  "'c externals \<Rightarrow> bytes \<Rightarrow> bytes \<Rightarrow> 'c trusted_material \<Rightarrow> 'c verification_content \<Rightarrow>
   'c certificate_authority \<Rightarrow> 'c call list" where
  "candidate_calls X tok sig tm vc ca =
     snd (verifySignedTimestamp_candidate X tok sig tm vc ca [])"

definition timestamp_result ::
  "'c externals \<Rightarrow> bytes \<Rightarrow> bytes \<Rightarrow> 'c trusted_material \<Rightarrow> 'c verification_content \<Rightarrow>
   error + time" where
  "timestamp_result X tok sig tm vc = fst (verifySignedTimestamp X tok sig tm vc [])"

fun is_VerifyTimestampResponse :: "'c call \<Rightarrow> bool" where
  "is_VerifyTimestampResponse (Call_VerifyTimestampResponse tok sig opts) = True"
| "is_VerifyTimestampResponse _ = False"

definition timestamp_calls ::
  "'c externals \<Rightarrow> bytes \<Rightarrow> bytes \<Rightarrow> 'c trusted_material \<Rightarrow> 'c verification_content \<Rightarrow>
   'c call list" where
  "timestamp_calls X tok sig tm vc = snd (verifySignedTimestamp X tok sig tm vc [])"

subsection \<open>Example collaborators and entities\<close>

text \<open>
  In \<open>ex_X\<close> a token is two bytes: the leaf certificate that signed it and its time; the
  signing certificate of \<open>ex_vc\<close> is valid from 5 to 50. In \<open>ex_Y\<close> the time depends
  on the candidate alone. \<open>ex_W\<close> reads tokens as \<open>ex_X\<close> does and accepts a chain only
  through the intermediate certificate 2 to the root 1, which \<open>ex_ca_d\<close> lacks.
\<close>

definition ex_sig :: bytes where "ex_sig = [1, 2, 3]"

definition ex_X :: "nat externals" where
  "ex_X = \<lparr>VerifyTimestampResponse =
            (\<lambda>tok sig opts. case tok of
               [issuer, t] \<Rightarrow> if sig = ex_sig \<and> unat issuer = TSACertificate opts
                              then Some (uint t) else None
             | _ \<Rightarrow> None),
          Verify_x509 =
            (\<lambda>leaf opts. Roots_x509 opts \<noteq> [] \<and> ExtKeyUsageTimeStamping \<in> set (KeyUsages opts)
               \<and> CurrentTime opts \<le> 100)\<rparr>"

definition ex_Y :: "nat externals" where
  "ex_Y = \<lparr>VerifyTimestampResponse =
            (\<lambda>tok sig opts. if TSACertificate opts = 5 then Some 30
                             else if TSACertificate opts = 3 then Some 25 else None),
          Verify_x509 = (\<lambda>leaf opts. True)\<rparr>"

definition ex_W :: "nat externals" where
  "ex_W = \<lparr>VerifyTimestampResponse =
            (\<lambda>tok sig opts. case tok of
               [issuer, t] \<Rightarrow> if sig = ex_sig \<and> unat issuer = TSACertificate opts
                              then Some (uint t) else None
             | _ \<Rightarrow> None),
          Verify_x509 =
            (\<lambda>leaf opts. Roots_x509 opts = [1] \<and> Intermediates_x509 opts = [2]
               \<and> ExtKeyUsageTimeStamping \<in> set (KeyUsages opts))\<rparr>"

definition ex_vc :: "nat verification_content" where
  "ex_vc = \<lparr>ValidAtTime = (\<lambda>T tm. 5 \<le> T \<and> T \<le> 50)\<rparr>"

definition ex_ca_a :: "nat certificate_authority" where
  "ex_ca_a = \<lparr>Root = 1, Intermediates = [2], Leaf = 3,
              ValidityPeriodStart = 10, ValidityPeriodEnd = 20\<rparr>"

definition ex_ca_b :: "nat certificate_authority" where
  "ex_ca_b = \<lparr>Root = 4, Intermediates = [], Leaf = 5,
              ValidityPeriodStart = 0, ValidityPeriodEnd = 0\<rparr>"

definition ex_ca_c :: "nat certificate_authority" where
  "ex_ca_c = \<lparr>Root = 1, Intermediates = [2], Leaf = 3,
              ValidityPeriodStart = 0, ValidityPeriodEnd = 0\<rparr>"

definition ex_ca_d :: "nat certificate_authority" where
  "ex_ca_d = \<lparr>Root = 1, Intermediates = [], Leaf = 3,
              ValidityPeriodStart = 0, ValidityPeriodEnd = 0\<rparr>"

definition ex_tm :: "nat trusted_material" where
  "ex_tm = \<lparr>TSACertificateAuthorities = [ex_ca_a, ex_ca_b]\<rparr>"

definition ex_tm_bac :: "nat trusted_material" where
  "ex_tm_bac = \<lparr>TSACertificateAuthorities = [ex_ca_b, ex_ca_a, ex_ca_c]\<rparr>"

definition ex_tm_rev :: "nat trusted_material" where
  "ex_tm_rev = \<lparr>TSACertificateAuthorities = [ex_ca_b, ex_ca_a]\<rparr>"

definition ex_tm_a :: "nat trusted_material" where
  "ex_tm_a = \<lparr>TSACertificateAuthorities = [ex_ca_a]\<rparr>"

definition ex_tm_abc :: "nat trusted_material" where
  "ex_tm_abc = \<lparr>TSACertificateAuthorities = [ex_ca_a, ex_ca_b, ex_ca_c]\<rparr>"

definition ex_tm_dc :: "nat trusted_material" where
  "ex_tm_dc = \<lparr>TSACertificateAuthorities = [ex_ca_d, ex_ca_c]\<rparr>"

definition ex_tm_ca :: "nat trusted_material" where
  "ex_tm_ca = \<lparr>TSACertificateAuthorities = [ex_ca_c, ex_ca_a]\<rparr>"

definition ex_sc :: signature_content where
  "ex_sc = \<lparr>GetSignature = ex_sig\<rparr>"

definition ex_entity :: "nat signed_entity" where
  "ex_entity = \<lparr>Timestamps = ([[5, 30], [3, 15]], None),
                SignatureContent = Inr ex_sc, VerificationContent = Inr ex_vc\<rparr>"

definition ex_entity_one :: "nat signed_entity" where
  "ex_entity_one = \<lparr>Timestamps = ([[3, 15]], None),
                SignatureContent = Inr ex_sc, VerificationContent = Inr ex_vc\<rparr>"

definition ex_entity_unreadable :: "nat signed_entity" where
  "ex_entity_unreadable = \<lparr>Timestamps = ([], Some (OtherError ''no timestamps'')),
                SignatureContent = Inr ex_sc, VerificationContent = Inr ex_vc\<rparr>"

definition ex_entity_bad :: "nat signed_entity" where
  "ex_entity_bad = \<lparr>Timestamps = ([[5, 30], [9, 9], [3, 15]], None),
                SignatureContent = Inr ex_sc, VerificationContent = Inr ex_vc\<rparr>"

definition ex_entity_no_content :: "nat signed_entity" where
  "ex_entity_no_content = \<lparr>Timestamps = ([[9, 9]], None),
                SignatureContent = Inr ex_sc,
                VerificationContent = Inl (OtherError ''no verification content'')\<rparr>"

definition ex_entity_empty :: "nat signed_entity" where
  "ex_entity_empty = \<lparr>Timestamps = ([], None),
                SignatureContent = Inr ex_sc, VerificationContent = Inr ex_vc\<rparr>"

definition ex_entity_copies :: "nat signed_entity" where
  "ex_entity_copies = \<lparr>Timestamps = (replicate 3 [3, 15], None),
                SignatureContent = Inr ex_sc, VerificationContent = Inr ex_vc\<rparr>"

lemmas ex_defs = ex_sig_def ex_X_def ex_Y_def ex_W_def ex_vc_def ex_ca_a_def ex_ca_b_def
  ex_ca_c_def ex_ca_d_def ex_tm_def ex_tm_bac_def ex_tm_rev_def ex_tm_a_def ex_tm_abc_def
  ex_tm_dc_def ex_tm_ca_def ex_sc_def
  ex_entity_def ex_entity_one_def ex_entity_unreadable_def ex_entity_bad_def
  ex_entity_no_content_def ex_entity_empty_def ex_entity_copies_def

lemmas eval_defs = candidate_time_def candidate_calls_def verifySignedTimestamp_candidate_def
  trustedRootVerificationOptions_def verificationOptions_def tsaRootCertPool_def
  tsaIntermediateCertPool_def NewCertPool_def AddCert_def IsZero_def Before_def After_def
  timestamp_result_def verifySignedTimestamp_def Let_def

lemmas run_defs = eval_defs NewVerify_def Verify_def NewTimestampAuthorityVerifier_def

section \<open>The log and the result of the scan\<close>

lemma candidate_log:
  "verifySignedTimestamp_candidate X tok sig tm vc ca log =
     (candidate_time X tok sig tm vc ca, log @ candidate_calls X tok sig tm vc ca)"
  by (simp add: verifySignedTimestamp_candidate_def candidate_time_def candidate_calls_def
      Let_def split: option.split)

lemma candidate_calls_count:
  "length (filter is_VerifyTimestampResponse (candidate_calls X tok sig tm vc ca)) = 1"
  by (simp add: verifySignedTimestamp_candidate_def candidate_calls_def
      Let_def split: option.split)

lemma loop_all_fail:
  "\<forall>ca \<in> set cas. candidate_time X tok sig tm vc ca = None \<Longrightarrow>
   verifySignedTimestamp_loop X tok sig tm vc cas log =
     (Inl UnableToVerifySignedTimestamps,
      log @ concat (map (candidate_calls X tok sig tm vc) cas))"
  by (induction cas arbitrary: log) (simp_all add: candidate_log)

lemma loop_first_match:
  "\<forall>ca \<in> set pre. candidate_time X tok sig tm vc ca = None \<Longrightarrow>
   candidate_time X tok sig tm vc m = Some T \<Longrightarrow>
   verifySignedTimestamp_loop X tok sig tm vc (pre @ m # post) log =
     (Inr T, log @ concat (map (candidate_calls X tok sig tm vc) (pre @ [m])))"
  by (induction pre arbitrary: log) (simp_all add: candidate_log)

lemma first_match_exists:
  assumes "\<exists>ca \<in> set cas. candidate_time X tok sig tm vc ca \<noteq> None"
  shows "\<exists>pre m post T. cas = pre @ m # post
           \<and> (\<forall>ca \<in> set pre. candidate_time X tok sig tm vc ca = None)
           \<and> candidate_time X tok sig tm vc m = Some T"
proof -
  from split_list_first_prop [OF assms]
  obtain pre m post where
    "cas = pre @ m # post" and "candidate_time X tok sig tm vc m \<noteq> None"
    and "\<forall>ca \<in> set pre. \<not> candidate_time X tok sig tm vc ca \<noteq> None"
    by blast
  then show ?thesis by auto
qed

lemma loop_cases:
  "(\<forall>ca \<in> set cas. candidate_time X tok sig tm vc ca = None) \<or>
   (\<exists>pre m post T. cas = pre @ m # post
           \<and> (\<forall>ca \<in> set pre. candidate_time X tok sig tm vc ca = None)
           \<and> candidate_time X tok sig tm vc m = Some T)"
  using first_match_exists [of cas X tok sig tm vc] by blast

lemma loop_log:
  "verifySignedTimestamp_loop X tok sig tm vc cas log =
     (fst (verifySignedTimestamp_loop X tok sig tm vc cas []),
      log @ snd (verifySignedTimestamp_loop X tok sig tm vc cas []))"
  using loop_cases [of cas X tok sig tm vc]
  by (auto simp: loop_all_fail loop_first_match)

lemma verifySignedTimestamp_log:
  "verifySignedTimestamp X tok sig tm vc log =
     (timestamp_result X tok sig tm vc, log @ timestamp_calls X tok sig tm vc)"
  unfolding verifySignedTimestamp_def timestamp_result_def timestamp_calls_def
  by (subst loop_log, subst (2 3) loop_log) simp

lemma timestamp_result_all_fail:
  "\<forall>ca \<in> set (TSACertificateAuthorities tm). candidate_time X tok sig tm vc ca = None \<Longrightarrow>
   timestamp_result X tok sig tm vc = Inl UnableToVerifySignedTimestamps"
  by (simp add: timestamp_result_def verifySignedTimestamp_def loop_all_fail)

lemma timestamp_result_first_match:
  "TSACertificateAuthorities tm = pre @ m # post \<Longrightarrow>
   \<forall>ca \<in> set pre. candidate_time X tok sig tm vc ca = None \<Longrightarrow>
   candidate_time X tok sig tm vc m = Some T \<Longrightarrow>
   timestamp_result X tok sig tm vc = Inr T"
  by (simp add: timestamp_result_def verifySignedTimestamp_def loop_first_match)

lemma NewVerify_loop_fail:
  "t \<in> set tss \<Longrightarrow> timestamp_result X t sig tm vc = Inl e \<Longrightarrow>
   fst (NewVerify_loop X sig tm vc tss acc log) = Inl UnableToVerifyTimestamp"
proof (induction tss arbitrary: acc log)
  case Nil
  then show ?case by simp
next
  case (Cons u tss)
  show ?case
  proof (cases "timestamp_result X u sig tm vc")
    case (Inl e')
    then show ?thesis by (simp add: verifySignedTimestamp_log)
  next
    case (Inr T)
    with Cons.prems have "t \<in> set tss" by auto
    with Cons.IH Cons.prems(2) Inr show ?thesis by (simp add: verifySignedTimestamp_log)
  qed
qed

lemma NewVerify_loop_ok:
  "list_all2 (\<lambda>t T. timestamp_result X t sig tm vc = Inr T) tss vts \<Longrightarrow>
   fst (NewVerify_loop X sig tm vc tss acc log) = Inr (acc @ vts)"
proof (induction tss arbitrary: vts acc log)
  case Nil
  then show ?case by simp
next
  case (Cons u tss)
  from Cons.prems obtain T rest where
    vts: "vts = T # rest" and T: "timestamp_result X u sig tm vc = Inr T"
    and rest: "list_all2 (\<lambda>t T. timestamp_result X t sig tm vc = Inr T) tss rest"
    by (auto simp: list_all2_Cons1)
  from Cons.IH [OF rest] T show ?case
    by (simp add: verifySignedTimestamp_log vts)
qed

lemma NewVerify_loop_Inr:
  "fst (NewVerify_loop X sig tm vc tss acc log) = Inr r \<Longrightarrow>
   \<exists>vts. r = acc @ vts
      \<and> list_all2 (\<lambda>t T. timestamp_result X t sig tm vc = Inr T) tss vts"
proof (induction tss arbitrary: acc log)
  case Nil
  then show ?case by simp
next
  case (Cons u tss)
  show ?case
  proof (cases "timestamp_result X u sig tm vc")
    case (Inl e)
    with Cons.prems show ?thesis by (simp add: verifySignedTimestamp_log)
  next
    case (Inr T)
    with Cons.prems
    have "fst (NewVerify_loop X sig tm vc tss (acc @ [T])
                 (log @ timestamp_calls X u sig tm vc)) = Inr r"
      by (simp add: verifySignedTimestamp_log)
    from Cons.IH [OF this] obtain vts where
      "r = (acc @ [T]) @ vts"
      "list_all2 (\<lambda>t T. timestamp_result X t sig tm vc = Inr T) tss vts"
      by blast
    with Inr have "r = acc @ (T # vts)
      \<and> list_all2 (\<lambda>t T. timestamp_result X t sig tm vc = Inr T) (u # tss) (T # vts)"
      by simp
    then show ?thesis by blast
  qed
qed

lemma NewVerify_reaches_loop:
  assumes "Timestamps entity = (tss, None)" and "threshold p \<le> int (length tss)"
    and "SignatureContent entity = Inr sc" and "VerificationContent entity = Inr vc"
  shows "NewVerify X p entity log =
           NewVerify_loop X (GetSignature sc) (trustedMaterial p) vc tss []
             (log @ [Call_Timestamps, Call_SignatureContent, Call_GetSignature,
                     Call_VerificationContent])"
  using assms by (simp add: NewVerify_def)

lemma Verify_fst:
  "fst (Verify X p entity log) =
     (case fst (NewVerify X p entity log) of Inl err \<Rightarrow> Some err | Inr vts \<Rightarrow> None)"
  by (simp add: Verify_def split: prod.split sum.split)


subsection \<open>Lemmas about the scan of a rearranged sequence\<close>

lemma loop_unique_match:
  assumes "m \<in> set cas" and "candidate_time X tok sig tm vc m = Some T"
    and "\<forall>ca \<in> set cas. ca \<noteq> m \<longrightarrow> candidate_time X tok sig tm vc ca = None"
  shows "fst (verifySignedTimestamp_loop X tok sig tm vc cas log) = Inr T"
proof -
  from split_list_first [OF assms(1)] obtain pre post where
    cas: "cas = pre @ m # post" and "m \<notin> set pre"
    by blast
  with assms(3) have "\<forall>ca \<in> set pre. candidate_time X tok sig tm vc ca = None"
    by auto
  from loop_first_match [OF this assms(2)] show ?thesis
    by (simp add: cas)
qed

lemma candidate_time_cong:
  "\<forall>t. ValidAtTime vc t tm' = ValidAtTime vc t tm \<Longrightarrow>
   candidate_time X tok sig tm' vc ca = candidate_time X tok sig tm vc ca"
  by (simp add: candidate_time_def verifySignedTimestamp_candidate_def Let_def
      split: option.split)

lemma count_candidate_calls:
  "length (filter is_VerifyTimestampResponse
            (concat (map (candidate_calls X tok sig tm vc) cas))) = length cas"
  by (induction cas) (simp_all add: candidate_calls_count)

subsection \<open>The checks of one candidate\<close>

lemma candidate_time_SomeD:
  "candidate_time X tok sig tm vc ca = Some T \<Longrightarrow>
   VerifyTimestampResponse X tok sig (trustedRootVerificationOptions ca) = Some T"
  by (simp add: candidate_time_def verifySignedTimestamp_candidate_def Let_def
      split: option.splits if_splits)

lemma candidate_time_passes:
  "VerifyTimestampResponse X tok sig (trustedRootVerificationOptions ca) = Some T \<Longrightarrow>
   Verify_x509 X (Leaf ca) (verificationOptions ca T) \<Longrightarrow>
   IsZero (ValidityPeriodStart ca) \<or> \<not> Before T (ValidityPeriodStart ca) \<Longrightarrow>
   IsZero (ValidityPeriodEnd ca) \<or> \<not> After T (ValidityPeriodEnd ca) \<Longrightarrow>
   ValidAtTime vc T tm \<Longrightarrow>
   candidate_time X tok sig tm vc ca = Some T"
  by (auto simp: candidate_time_def verifySignedTimestamp_candidate_def Let_def)

lemma candidate_time_step_fails:
  "VerifyTimestampResponse X tok sig (trustedRootVerificationOptions ca) = Some T \<Longrightarrow>
   \<not> Verify_x509 X (Leaf ca) (verificationOptions ca T)
   \<or> (\<not> IsZero (ValidityPeriodStart ca) \<and> Before T (ValidityPeriodStart ca))
   \<or> (\<not> IsZero (ValidityPeriodEnd ca) \<and> After T (ValidityPeriodEnd ca))
   \<or> \<not> ValidAtTime vc T tm \<Longrightarrow>
   candidate_time X tok sig tm vc ca = None"
  by (auto simp: candidate_time_def verifySignedTimestamp_candidate_def Let_def)

section \<open>Properties\<close>

text \<open>
  Claim C1, amended. Let the tokens be retrieved without error and be at least
  \<open>threshold\<close> many, and let the signature content and the verification content be
  retrieved without error too. If one of the tokens passes the checks of no candidate
  certificate authority, \<^verbatim>\<open>NewVerify\<close> fails with the error "unable to verify timestamp"
  and returns no times, and \<^verbatim>\<open>Verify\<close> returns the same error, however many of the
  other tokens verify. (When a retrieval of content fails, the error returned is that
  of the retrieval: see the counterexample below.)
\<close>

theorem NewVerify_one_token_fails:
  assumes "Timestamps entity = (tss, None)" and "threshold p \<le> int (length tss)"
    and "SignatureContent entity = Inr sc" and "VerificationContent entity = Inr vc"
    and "t \<in> set tss"
    and "\<forall>ca \<in> set (TSACertificateAuthorities (trustedMaterial p)).
           candidate_time X t (GetSignature sc) (trustedMaterial p) vc ca = None"
  shows "fst (NewVerify X p entity log) = Inl UnableToVerifyTimestamp
       \<and> fst (Verify X p entity log) = Some UnableToVerifyTimestamp"
proof -
  from assms(6)
  have "timestamp_result X t (GetSignature sc) (trustedMaterial p) vc
          = Inl UnableToVerifySignedTimestamps"
    by (rule timestamp_result_all_fail)
  from NewVerify_loop_fail [OF assms(5) this]
  have "fst (NewVerify X p entity log) = Inl UnableToVerifyTimestamp"
    by (simp add: NewVerify_reaches_loop [OF assms(1-4)])
  then show ?thesis by (simp add: Verify_fst)
qed

theorem NewVerify_one_token_fails_witness:
  "fst (NewVerify ex_X (NewTimestampAuthorityVerifier ex_tm 2) ex_entity_bad [])
     = Inl UnableToVerifyTimestamp
   \<and> fst (Verify ex_X (NewTimestampAuthorityVerifier ex_tm 2) ex_entity_bad [])
     = Some UnableToVerifyTimestamp
   \<and> timestamp_result ex_X [5, 30] ex_sig ex_tm ex_vc = Inr 30
   \<and> timestamp_result ex_X [3, 15] ex_sig ex_tm ex_vc = Inr 15"
proof -
  have tss: "Timestamps ex_entity_bad = ([[5, 30], [9, 9], [3, 15]], None)"
    and sc: "SignatureContent ex_entity_bad = Inr ex_sc"
    and vc: "VerificationContent ex_entity_bad = Inr ex_vc"
    by (simp_all add: ex_entity_bad_def)
  have k: "threshold (NewTimestampAuthorityVerifier ex_tm 2)
             \<le> int (length [[5, 30], [9, 9], [3, 15 :: 8 word]])"
    by (simp add: NewTimestampAuthorityVerifier_def)
  have t: "[9, 9] \<in> set [[5, 30], [9, 9], [3, 15 :: 8 word]]"
    by simp
  have fails: "\<forall>ca \<in> set (TSACertificateAuthorities
                              (trustedMaterial (NewTimestampAuthorityVerifier ex_tm 2))).
           candidate_time ex_X [9, 9] (GetSignature ex_sc)
             (trustedMaterial (NewTimestampAuthorityVerifier ex_tm 2)) ex_vc ca = None"
    by (simp add: eval_defs ex_defs NewTimestampAuthorityVerifier_def)
  have others: "timestamp_result ex_X [5, 30] ex_sig ex_tm ex_vc = Inr 30
              \<and> timestamp_result ex_X [3, 15] ex_sig ex_tm ex_vc = Inr 15"
    by (simp add: eval_defs ex_defs)
  from NewVerify_one_token_fails [OF tss k sc vc t fails, of "[]"] others
  show ?thesis by simp
qed

text \<open>
  The claim C1 as first stated asks only that the tokens be retrieved and be enough. Here
  one token is retrieved, the threshold is 1, the token passes no candidate, and the
  retrieval of the verification content fails: the call returns the error of that
  retrieval, not "unable to verify timestamp".
\<close>

theorem NewVerify_one_token_fails_counterexample:
  "Timestamps ex_entity_no_content = ([[9, 9]], None)
   \<and> threshold (NewTimestampAuthorityVerifier ex_tm 1) \<le> int (length [[9, 9 :: 8 word]])
   \<and> candidate_time ex_X [9, 9] ex_sig ex_tm ex_vc ex_ca_a = None
   \<and> candidate_time ex_X [9, 9] ex_sig ex_tm ex_vc ex_ca_b = None
   \<and> timestamp_result ex_X [9, 9] ex_sig ex_tm ex_vc = Inl UnableToVerifySignedTimestamps
   \<and> fst (NewVerify ex_X (NewTimestampAuthorityVerifier ex_tm 1) ex_entity_no_content [])
       = Inl (OtherError ''no verification content'')
   \<and> fst (NewVerify ex_X (NewTimestampAuthorityVerifier ex_tm 1) ex_entity_no_content [])
       \<noteq> Inl UnableToVerifyTimestamp
   \<and> fst (Verify ex_X (NewTimestampAuthorityVerifier ex_tm 1) ex_entity_no_content [])
       \<noteq> Some UnableToVerifyTimestamp"
  by (simp add: run_defs ex_defs)

text \<open>
  Claim C2, amended. For a token and a candidate that are valid in every other respect
  (the token verifies with time \<open>T\<close>, the chain of the leaf verifies at \<open>T\<close>, the
  verification content is valid at \<open>T\<close>), the candidate returns \<open>T\<close> exactly when
  \<open>T\<close> is not before a start that is set and not after an end that is set: the window
  is closed on both sides. So \<open>T\<close> equal to the start verifies, \<open>T\<close> equal to the end
  verifies, \<open>T\<close> before the start or after the end fails, and a zero bound does not
  constrain its side. With that candidate alone in the trust material,
  \<^verbatim>\<open>verifySignedTimestamp\<close> returns \<open>T\<close> or fails accordingly.
\<close>

theorem validity_window_closed:
  assumes "VerifyTimestampResponse X tok sig (trustedRootVerificationOptions ca) = Some T"
    and "Verify_x509 X (Leaf ca) (verificationOptions ca T)"
    and "ValidAtTime vc T tm"
  shows "candidate_time X tok sig tm vc ca =
           (if (IsZero (ValidityPeriodStart ca) \<or> ValidityPeriodStart ca \<le> T)
               \<and> (IsZero (ValidityPeriodEnd ca) \<or> T \<le> ValidityPeriodEnd ca)
            then Some T else None)
       \<and> (TSACertificateAuthorities tm = [ca] \<longrightarrow>
            timestamp_result X tok sig tm vc =
              (if (IsZero (ValidityPeriodStart ca) \<or> ValidityPeriodStart ca \<le> T)
                  \<and> (IsZero (ValidityPeriodEnd ca) \<or> T \<le> ValidityPeriodEnd ca)
               then Inr T else Inl UnableToVerifySignedTimestamps))"
proof -
  have c: "candidate_time X tok sig tm vc ca =
           (if (IsZero (ValidityPeriodStart ca) \<or> ValidityPeriodStart ca \<le> T)
               \<and> (IsZero (ValidityPeriodEnd ca) \<or> T \<le> ValidityPeriodEnd ca)
            then Some T else None)"
    using assms
    by (auto simp: candidate_time_def verifySignedTimestamp_candidate_def Let_def
        Before_def After_def)
  have "timestamp_result X tok sig tm vc =
              (if (IsZero (ValidityPeriodStart ca) \<or> ValidityPeriodStart ca \<le> T)
                  \<and> (IsZero (ValidityPeriodEnd ca) \<or> T \<le> ValidityPeriodEnd ca)
               then Inr T else Inl UnableToVerifySignedTimestamps)"
    if "TSACertificateAuthorities tm = [ca]"
    using that c
      timestamp_result_first_match [of tm "[]" ca "[]" X tok sig vc T]
      timestamp_result_all_fail [of tm X tok sig vc]
    by (simp split: if_splits)
  with c show ?thesis by blast
qed

theorem validity_window_closed_witness:
  "candidate_time ex_X [3, 15] ex_sig ex_tm_a ex_vc ex_ca_a = Some 15
   \<and> candidate_time ex_X [3, 10] ex_sig ex_tm_a ex_vc ex_ca_a = Some 10
   \<and> candidate_time ex_X [3, 20] ex_sig ex_tm_a ex_vc ex_ca_a = Some 20
   \<and> candidate_time ex_X [3, 9] ex_sig ex_tm_a ex_vc ex_ca_a = None
   \<and> candidate_time ex_X [3, 21] ex_sig ex_tm_a ex_vc ex_ca_a = None
   \<and> candidate_time ex_X [3, 21] ex_sig ex_tm_a ex_vc ex_ca_c = Some 21
   \<and> timestamp_result ex_X [3, 20] ex_sig ex_tm_a ex_vc = Inr 20
   \<and> timestamp_result ex_X [3, 21] ex_sig ex_tm_a ex_vc = Inl UnableToVerifySignedTimestamps"
proof -
  have v: "VerifyTimestampResponse ex_X [3, 15] ex_sig (trustedRootVerificationOptions ex_ca_a) = Some 15"
    "VerifyTimestampResponse ex_X [3, 10] ex_sig (trustedRootVerificationOptions ex_ca_a) = Some 10"
    "VerifyTimestampResponse ex_X [3, 20] ex_sig (trustedRootVerificationOptions ex_ca_a) = Some 20"
    "VerifyTimestampResponse ex_X [3, 9] ex_sig (trustedRootVerificationOptions ex_ca_a) = Some 9"
    "VerifyTimestampResponse ex_X [3, 21] ex_sig (trustedRootVerificationOptions ex_ca_a) = Some 21"
    "VerifyTimestampResponse ex_X [3, 21] ex_sig (trustedRootVerificationOptions ex_ca_c) = Some 21"
    by (simp_all add: ex_X_def ex_ca_a_def ex_ca_c_def trustedRootVerificationOptions_def)
  have x: "Verify_x509 ex_X (Leaf ex_ca_a) (verificationOptions ex_ca_a 15)"
    "Verify_x509 ex_X (Leaf ex_ca_a) (verificationOptions ex_ca_a 10)"
    "Verify_x509 ex_X (Leaf ex_ca_a) (verificationOptions ex_ca_a 20)"
    "Verify_x509 ex_X (Leaf ex_ca_a) (verificationOptions ex_ca_a 9)"
    "Verify_x509 ex_X (Leaf ex_ca_a) (verificationOptions ex_ca_a 21)"
    "Verify_x509 ex_X (Leaf ex_ca_c) (verificationOptions ex_ca_c 21)"
    by (simp_all add: ex_X_def ex_ca_a_def ex_ca_c_def verificationOptions_def
        tsaRootCertPool_def AddCert_def NewCertPool_def)
  have c: "ValidAtTime ex_vc 15 ex_tm_a" "ValidAtTime ex_vc 10 ex_tm_a"
    "ValidAtTime ex_vc 20 ex_tm_a" "ValidAtTime ex_vc 9 ex_tm_a" "ValidAtTime ex_vc 21 ex_tm_a"
    by (simp_all add: ex_vc_def)
  have tm: "TSACertificateAuthorities ex_tm_a = [ex_ca_a]"
    by (simp add: ex_tm_a_def)
  have w: "ValidityPeriodStart ex_ca_a = 10" "ValidityPeriodEnd ex_ca_a = 20"
      "ValidityPeriodStart ex_ca_c = 0" "ValidityPeriodEnd ex_ca_c = 0"
    by (simp_all add: ex_ca_a_def ex_ca_c_def)
  from validity_window_closed [OF v(1) x(1) c(1)]
       validity_window_closed [OF v(2) x(2) c(2)]
       validity_window_closed [OF v(3) x(3) c(3)]
       validity_window_closed [OF v(4) x(4) c(4)]
       validity_window_closed [OF v(5) x(5) c(5)]
       validity_window_closed [OF v(6) x(6) c(5)]
  show ?thesis by (simp add: tm w IsZero_def)
qed

text \<open>
  The claim C2 as first stated has a token at the very end of the window fail. With the
  window from 10 to 20 and a token of time 20, valid in every other respect, the
  candidate accepts the token.
\<close>

theorem validity_window_counterexample:
  "ValidityPeriodStart ex_ca_a = 10 \<and> ValidityPeriodEnd ex_ca_a = 20
   \<and> VerifyTimestampResponse ex_X [3, 20] ex_sig (trustedRootVerificationOptions ex_ca_a) = Some 20
   \<and> Verify_x509 ex_X (Leaf ex_ca_a) (verificationOptions ex_ca_a 20)
   \<and> ValidAtTime ex_vc 20 ex_tm_a
   \<and> candidate_time ex_X [3, 20] ex_sig ex_tm_a ex_vc ex_ca_a = Some 20
   \<and> timestamp_result ex_X [3, 20] ex_sig ex_tm_a ex_vc = Inr 20"
  by (simp add: eval_defs ex_defs)

text \<open>
  Claim C3. When \<^verbatim>\<open>Timestamps()\<close> returns an error, or returns fewer tokens than the
  threshold, \<^verbatim>\<open>NewVerify\<close> and \<^verbatim>\<open>Verify\<close> fail with the error that carries the number
  of tokens returned and the threshold, and the only call made is the one to
  \<^verbatim>\<open>Timestamps()\<close>: neither the signature content nor the verification content is
  retrieved, the trust material is not read and no token is verified, whatever the
  tokens are.
\<close>

theorem NewVerify_not_enough:
  assumes "Timestamps entity = (signedTimestamps, err)"
    and "err \<noteq> None \<or> int (length signedTimestamps) < threshold p"
  shows "NewVerify X p entity log =
           (Inl (NotEnoughSignedTimestamps (int (length signedTimestamps)) (threshold p)),
            log @ [Call_Timestamps])
       \<and> Verify X p entity log =
           (Some (NotEnoughSignedTimestamps (int (length signedTimestamps)) (threshold p)),
            log @ [Call_Timestamps])"
  using assms by (simp add: NewVerify_def Verify_def)

theorem NewVerify_not_enough_witness:
  "NewVerify ex_X (NewTimestampAuthorityVerifier ex_tm 2) ex_entity_one [] =
     (Inl (NotEnoughSignedTimestamps 1 2), [Call_Timestamps])
   \<and> Verify ex_X (NewTimestampAuthorityVerifier ex_tm 2) ex_entity_one [] =
     (Some (NotEnoughSignedTimestamps 1 2), [Call_Timestamps])
   \<and> NewVerify ex_X (NewTimestampAuthorityVerifier ex_tm 0) ex_entity_unreadable [] =
     (Inl (NotEnoughSignedTimestamps 0 0), [Call_Timestamps])"
proof -
  have one: "Timestamps ex_entity_one = ([[3, 15]], None)"
    by (simp add: ex_entity_one_def)
  have few: "None \<noteq> (None :: error option)
      \<or> int (length [[3, 15 :: 8 word]]) < threshold (NewTimestampAuthorityVerifier ex_tm 2)"
    by (simp add: NewTimestampAuthorityVerifier_def)
  have unreadable:
    "Timestamps ex_entity_unreadable = ([], Some (OtherError ''no timestamps''))"
    by (simp add: ex_entity_unreadable_def)
  have failed: "Some (OtherError ''no timestamps'') \<noteq> None
      \<or> int (length ([] :: bytes list)) < threshold (NewTimestampAuthorityVerifier ex_tm 0)"
    by simp
  from NewVerify_not_enough [OF one few, of ex_X "[]"]
       NewVerify_not_enough [OF unreadable failed, of ex_X "[]"]
  show ?thesis by (simp add: NewTimestampAuthorityVerifier_def)
qed

text \<open>
  Claim C4. \<^verbatim>\<open>tsaverification.VerifyTimestampResponse\<close> returns the time written in the
  token, so for one token and signature its time is the same under every set of options:
  that is the fourth hypothesis. Let the token verify cryptographically under the
  candidate at position \<open>i\<close>, with time \<open>T1\<close>, and let the chain verification, the validity
  window or the cross-check of the verification content of that candidate fail at \<open>T1\<close>.
  Then that candidate does not return, and the scan goes on with whatever candidates
  follow it. If moreover the token passes all the checks of the candidate at a later
  position \<open>j\<close>, with time \<open>T2\<close>, then \<^verbatim>\<open>verifySignedTimestamp\<close> succeeds and returns \<open>T2\<close>.
  The witness has one candidate failing by its window, one by its chain and one by the
  verification content.
\<close>

theorem scan_continues_past_failed_candidate:
  assumes "TSACertificateAuthorities tm = cas" and "i < j" and "j < length cas"
    and "\<forall>opts opts' T T'.
           VerifyTimestampResponse X tok sig opts = Some T \<longrightarrow>
           VerifyTimestampResponse X tok sig opts' = Some T' \<longrightarrow> T' = T"
    and "VerifyTimestampResponse X tok sig (trustedRootVerificationOptions (cas ! i)) = Some T1"
    and "\<not> Verify_x509 X (Leaf (cas ! i)) (verificationOptions (cas ! i) T1)
         \<or> (\<not> IsZero (ValidityPeriodStart (cas ! i)) \<and> Before T1 (ValidityPeriodStart (cas ! i)))
         \<or> (\<not> IsZero (ValidityPeriodEnd (cas ! i)) \<and> After T1 (ValidityPeriodEnd (cas ! i)))
         \<or> \<not> ValidAtTime vc T1 tm"
  shows "candidate_time X tok sig tm vc (cas ! i) = None
       \<and> (\<forall>rest log.
            verifySignedTimestamp_loop X tok sig tm vc (cas ! i # rest) log =
            verifySignedTimestamp_loop X tok sig tm vc rest
              (log @ candidate_calls X tok sig tm vc (cas ! i)))
       \<and> (VerifyTimestampResponse X tok sig (trustedRootVerificationOptions (cas ! j)) = Some T2
            \<and> Verify_x509 X (Leaf (cas ! j)) (verificationOptions (cas ! j) T2)
            \<and> (IsZero (ValidityPeriodStart (cas ! j)) \<or> \<not> Before T2 (ValidityPeriodStart (cas ! j)))
            \<and> (IsZero (ValidityPeriodEnd (cas ! j)) \<or> \<not> After T2 (ValidityPeriodEnd (cas ! j)))
            \<and> ValidAtTime vc T2 tm
          \<longrightarrow> timestamp_result X tok sig tm vc = Inr T2)"
proof -
  have goes_on: "candidate_time X tok sig tm vc (cas ! i) = None"
    using assms(5,6) by (rule candidate_time_step_fails)
  then have next_candidate:
    "verifySignedTimestamp_loop X tok sig tm vc (cas ! i # rest) log =
     verifySignedTimestamp_loop X tok sig tm vc rest
       (log @ candidate_calls X tok sig tm vc (cas ! i))" for rest log
    by (simp add: candidate_log)
  have result: "timestamp_result X tok sig tm vc = Inr T2"
    if crypto: "VerifyTimestampResponse X tok sig (trustedRootVerificationOptions (cas ! j)) = Some T2"
      and chain: "Verify_x509 X (Leaf (cas ! j)) (verificationOptions (cas ! j) T2)"
      and start: "IsZero (ValidityPeriodStart (cas ! j)) \<or> \<not> Before T2 (ValidityPeriodStart (cas ! j))"
      and finish: "IsZero (ValidityPeriodEnd (cas ! j)) \<or> \<not> After T2 (ValidityPeriodEnd (cas ! j))"
      and content: "ValidAtTime vc T2 tm"
  proof -
    from crypto chain start finish content
    have "candidate_time X tok sig tm vc (cas ! j) = Some T2"
      by (rule candidate_time_passes)
    with assms(3) have "\<exists>ca \<in> set cas. candidate_time X tok sig tm vc ca \<noteq> None"
      by (metis nth_mem option.distinct(1))
    from first_match_exists [OF this] obtain pre m post T where
      decomp: "cas = pre @ m # post"
      and pre: "\<forall>ca \<in> set pre. candidate_time X tok sig tm vc ca = None"
      and m: "candidate_time X tok sig tm vc m = Some T"
      by blast
    from m have "VerifyTimestampResponse X tok sig (trustedRootVerificationOptions m) = Some T"
      by (rule candidate_time_SomeD)
    with assms(4) crypto have "T = T2" by blast
    moreover have "timestamp_result X tok sig tm vc = Inr T"
      using decomp pre m by (intro timestamp_result_first_match) (simp_all add: assms(1))
    ultimately show ?thesis by simp
  qed
  from goes_on next_candidate result show ?thesis by blast
qed

theorem scan_continues_past_failed_candidate_witness:
  "candidate_time ex_X [3, 25] ex_sig ex_tm_bac ex_vc ex_ca_a = None
   \<and> timestamp_result ex_X [3, 25] ex_sig ex_tm_bac ex_vc = Inr 25
   \<and> \<not> Verify_x509 ex_W (Leaf ex_ca_d) (verificationOptions ex_ca_d 25)
   \<and> candidate_time ex_W [3, 25] ex_sig ex_tm_dc ex_vc ex_ca_d = None
   \<and> timestamp_result ex_W [3, 25] ex_sig ex_tm_dc ex_vc = Inr 25
   \<and> Verify_x509 ex_X (Leaf ex_ca_c) (verificationOptions ex_ca_c 60)
   \<and> \<not> ValidAtTime ex_vc 60 ex_tm_ca
   \<and> candidate_time ex_X [3, 60] ex_sig ex_tm_ca ex_vc ex_ca_c = None
   \<and> verifySignedTimestamp_loop ex_X [3, 60] ex_sig ex_tm_ca ex_vc [ex_ca_c, ex_ca_a] [] =
       verifySignedTimestamp_loop ex_X [3, 60] ex_sig ex_tm_ca ex_vc [ex_ca_a]
         (candidate_calls ex_X [3, 60] ex_sig ex_tm_ca ex_vc ex_ca_c)"
proof -
  have fixed_X: "\<forall>opts opts' T T'.
           VerifyTimestampResponse ex_X tok ex_sig opts = Some T \<longrightarrow>
           VerifyTimestampResponse ex_X tok ex_sig opts' = Some T' \<longrightarrow> T' = T" for tok
    by (auto simp: ex_X_def split: list.splits if_splits)
  have fixed_W: "\<forall>opts opts' T T'.
           VerifyTimestampResponse ex_W [3, 25] ex_sig opts = Some T \<longrightarrow>
           VerifyTimestampResponse ex_W [3, 25] ex_sig opts' = Some T' \<longrightarrow> T' = T"
    by (auto simp: ex_W_def split: if_splits)
  \<comment> \<open>The window of the candidate fails.\<close>
  have bac: "TSACertificateAuthorities ex_tm_bac = [ex_ca_b, ex_ca_a, ex_ca_c]"
    by (simp add: ex_tm_bac_def)
  have bac_ij: "(1::nat) < 2" "2 < length [ex_ca_b, ex_ca_a, ex_ca_c]"
    by simp_all
  have bac_crypto: "VerifyTimestampResponse ex_X [3, 25] ex_sig
      (trustedRootVerificationOptions ([ex_ca_b, ex_ca_a, ex_ca_c] ! 1)) = Some 25"
    by (simp add: eval_defs ex_defs)
  have bac_fails:
    "\<not> Verify_x509 ex_X (Leaf ([ex_ca_b, ex_ca_a, ex_ca_c] ! 1))
         (verificationOptions ([ex_ca_b, ex_ca_a, ex_ca_c] ! 1) 25)
     \<or> (\<not> IsZero (ValidityPeriodStart ([ex_ca_b, ex_ca_a, ex_ca_c] ! 1))
          \<and> Before 25 (ValidityPeriodStart ([ex_ca_b, ex_ca_a, ex_ca_c] ! 1)))
     \<or> (\<not> IsZero (ValidityPeriodEnd ([ex_ca_b, ex_ca_a, ex_ca_c] ! 1))
          \<and> After 25 (ValidityPeriodEnd ([ex_ca_b, ex_ca_a, ex_ca_c] ! 1)))
     \<or> \<not> ValidAtTime ex_vc 25 ex_tm_bac"
    by (simp add: eval_defs ex_defs)
  have bac_passes:
    "VerifyTimestampResponse ex_X [3, 25] ex_sig
        (trustedRootVerificationOptions ([ex_ca_b, ex_ca_a, ex_ca_c] ! 2)) = Some 25
     \<and> Verify_x509 ex_X (Leaf ([ex_ca_b, ex_ca_a, ex_ca_c] ! 2))
          (verificationOptions ([ex_ca_b, ex_ca_a, ex_ca_c] ! 2) 25)
     \<and> (IsZero (ValidityPeriodStart ([ex_ca_b, ex_ca_a, ex_ca_c] ! 2))
          \<or> \<not> Before 25 (ValidityPeriodStart ([ex_ca_b, ex_ca_a, ex_ca_c] ! 2)))
     \<and> (IsZero (ValidityPeriodEnd ([ex_ca_b, ex_ca_a, ex_ca_c] ! 2))
          \<or> \<not> After 25 (ValidityPeriodEnd ([ex_ca_b, ex_ca_a, ex_ca_c] ! 2)))
     \<and> ValidAtTime ex_vc 25 ex_tm_bac"
    by (simp add: eval_defs ex_defs)
  \<comment> \<open>The chain of the candidate fails: its intermediate certificate is missing.\<close>
  have dc: "TSACertificateAuthorities ex_tm_dc = [ex_ca_d, ex_ca_c]"
    by (simp add: ex_tm_dc_def)
  have dc_ij: "(0::nat) < 1" "1 < length [ex_ca_d, ex_ca_c]"
    by simp_all
  have dc_crypto: "VerifyTimestampResponse ex_W [3, 25] ex_sig
      (trustedRootVerificationOptions ([ex_ca_d, ex_ca_c] ! 0)) = Some 25"
    by (simp add: eval_defs ex_defs)
  have dc_fails:
    "\<not> Verify_x509 ex_W (Leaf ([ex_ca_d, ex_ca_c] ! 0))
         (verificationOptions ([ex_ca_d, ex_ca_c] ! 0) 25)
     \<or> (\<not> IsZero (ValidityPeriodStart ([ex_ca_d, ex_ca_c] ! 0))
          \<and> Before 25 (ValidityPeriodStart ([ex_ca_d, ex_ca_c] ! 0)))
     \<or> (\<not> IsZero (ValidityPeriodEnd ([ex_ca_d, ex_ca_c] ! 0))
          \<and> After 25 (ValidityPeriodEnd ([ex_ca_d, ex_ca_c] ! 0)))
     \<or> \<not> ValidAtTime ex_vc 25 ex_tm_dc"
    by (simp add: eval_defs ex_defs)
  have dc_passes:
    "VerifyTimestampResponse ex_W [3, 25] ex_sig
        (trustedRootVerificationOptions ([ex_ca_d, ex_ca_c] ! 1)) = Some 25
     \<and> Verify_x509 ex_W (Leaf ([ex_ca_d, ex_ca_c] ! 1))
          (verificationOptions ([ex_ca_d, ex_ca_c] ! 1) 25)
     \<and> (IsZero (ValidityPeriodStart ([ex_ca_d, ex_ca_c] ! 1))
          \<or> \<not> Before 25 (ValidityPeriodStart ([ex_ca_d, ex_ca_c] ! 1)))
     \<and> (IsZero (ValidityPeriodEnd ([ex_ca_d, ex_ca_c] ! 1))
          \<or> \<not> After 25 (ValidityPeriodEnd ([ex_ca_d, ex_ca_c] ! 1)))
     \<and> ValidAtTime ex_vc 25 ex_tm_dc"
    by (simp add: eval_defs ex_defs)
  \<comment> \<open>The verification content is not valid at the time of the token.\<close>
  have ca: "TSACertificateAuthorities ex_tm_ca = [ex_ca_c, ex_ca_a]"
    by (simp add: ex_tm_ca_def)
  have ca_ij: "(0::nat) < 1" "1 < length [ex_ca_c, ex_ca_a]"
    by simp_all
  have ca_crypto: "VerifyTimestampResponse ex_X [3, 60] ex_sig
      (trustedRootVerificationOptions ([ex_ca_c, ex_ca_a] ! 0)) = Some 60"
    by (simp add: eval_defs ex_defs)
  have steps: "\<not> Verify_x509 ex_W (Leaf ex_ca_d) (verificationOptions ex_ca_d 25)"
    "Verify_x509 ex_X (Leaf ex_ca_c) (verificationOptions ex_ca_c 60)"
    "\<not> ValidAtTime ex_vc 60 ex_tm_ca"
    by (simp_all add: eval_defs ex_defs)
  have ca_fails:
    "\<not> Verify_x509 ex_X (Leaf ([ex_ca_c, ex_ca_a] ! 0))
         (verificationOptions ([ex_ca_c, ex_ca_a] ! 0) 60)
     \<or> (\<not> IsZero (ValidityPeriodStart ([ex_ca_c, ex_ca_a] ! 0))
          \<and> Before 60 (ValidityPeriodStart ([ex_ca_c, ex_ca_a] ! 0)))
     \<or> (\<not> IsZero (ValidityPeriodEnd ([ex_ca_c, ex_ca_a] ! 0))
          \<and> After 60 (ValidityPeriodEnd ([ex_ca_c, ex_ca_a] ! 0)))
     \<or> \<not> ValidAtTime ex_vc 60 ex_tm_ca"
    by (simp add: ex_vc_def)
  from scan_continues_past_failed_candidate
         [OF bac bac_ij fixed_X bac_crypto bac_fails, of 25] bac_passes
       scan_continues_past_failed_candidate
         [OF dc dc_ij fixed_W dc_crypto dc_fails, of 25] dc_passes
       scan_continues_past_failed_candidate
         [OF ca ca_ij fixed_X ca_crypto ca_fails, of 25] steps
  show ?thesis by simp
qed

text \<open>
  Claim C5. Let the token pass all the checks of one certificate authority \<open>m\<close> of the
  trust material, with time \<open>T\<close>, and of no other. Then \<^verbatim>\<open>verifySignedTimestamp\<close> returns
  \<open>T\<close>; the scan returns \<open>T\<close> over every permutation of the candidates; and so does
  \<^verbatim>\<open>verifySignedTimestamp\<close> on every trust material that lists the candidates in another
  order, the verification content answering the same for it.
\<close>

theorem single_match_any_order:
  assumes "m \<in> set (TSACertificateAuthorities tm)"
    and "candidate_time X tok sig tm vc m = Some T"
    and "\<forall>ca \<in> set (TSACertificateAuthorities tm).
           ca \<noteq> m \<longrightarrow> candidate_time X tok sig tm vc ca = None"
  shows "timestamp_result X tok sig tm vc = Inr T
       \<and> (\<forall>cas' log. mset cas' = mset (TSACertificateAuthorities tm) \<longrightarrow>
            fst (verifySignedTimestamp_loop X tok sig tm vc cas' log) = Inr T)
       \<and> (\<forall>tm'. mset (TSACertificateAuthorities tm') = mset (TSACertificateAuthorities tm)
              \<and> (\<forall>t. ValidAtTime vc t tm' = ValidAtTime vc t tm) \<longrightarrow>
            timestamp_result X tok sig tm' vc = Inr T)"
proof -
  have scan: "fst (verifySignedTimestamp_loop X tok sig tm vc cas' log) = Inr T"
    if "mset cas' = mset (TSACertificateAuthorities tm)" for cas' log
  proof -
    from that have "set cas' = set (TSACertificateAuthorities tm)"
      by (rule mset_eq_setD)
    with assms show ?thesis
      by (intro loop_unique_match) simp_all
  qed
  have here: "timestamp_result X tok sig tm vc = Inr T"
    using scan [of "TSACertificateAuthorities tm"]
    by (simp add: timestamp_result_def verifySignedTimestamp_def)
  have there: "timestamp_result X tok sig tm' vc = Inr T"
    if p: "mset (TSACertificateAuthorities tm') = mset (TSACertificateAuthorities tm)"
      and v: "\<forall>t. ValidAtTime vc t tm' = ValidAtTime vc t tm" for tm'
  proof -
    from p have s: "set (TSACertificateAuthorities tm') = set (TSACertificateAuthorities tm)"
      by (rule mset_eq_setD)
    have "fst (verifySignedTimestamp_loop X tok sig tm' vc (TSACertificateAuthorities tm')
                 [Call_TSACertificateAuthorities]) = Inr T"
      using assms s by (intro loop_unique_match) (simp_all add: candidate_time_cong [OF v])
    then show ?thesis
      by (simp add: timestamp_result_def verifySignedTimestamp_def)
  qed
  from here scan there show ?thesis by blast
qed

theorem single_match_any_order_witness:
  "timestamp_result ex_X [5, 30] ex_sig ex_tm ex_vc = Inr 30
   \<and> timestamp_result ex_X [5, 30] ex_sig ex_tm_rev ex_vc = Inr 30
   \<and> fst (verifySignedTimestamp_loop ex_X [5, 30] ex_sig ex_tm ex_vc [ex_ca_b, ex_ca_a] [])
       = Inr 30"
proof -
  have cas: "TSACertificateAuthorities ex_tm = [ex_ca_a, ex_ca_b]"
    and rev: "TSACertificateAuthorities ex_tm_rev = [ex_ca_b, ex_ca_a]"
    by (simp_all add: ex_tm_def ex_tm_rev_def)
  have m: "ex_ca_b \<in> set (TSACertificateAuthorities ex_tm)"
    by (simp add: cas)
  have b: "candidate_time ex_X [5, 30] ex_sig ex_tm ex_vc ex_ca_b = Some 30"
    and a: "candidate_time ex_X [5, 30] ex_sig ex_tm ex_vc ex_ca_a = None"
    by (simp_all add: eval_defs ex_defs)
  have others: "\<forall>ca \<in> set (TSACertificateAuthorities ex_tm).
           ca \<noteq> ex_ca_b \<longrightarrow> candidate_time ex_X [5, 30] ex_sig ex_tm ex_vc ca = None"
    using a by (simp add: cas)
  have perm: "mset [ex_ca_b, ex_ca_a] = mset (TSACertificateAuthorities ex_tm)"
    "mset (TSACertificateAuthorities ex_tm_rev) = mset (TSACertificateAuthorities ex_tm)"
    by (simp_all add: cas rev)
  have same: "\<forall>t. ValidAtTime ex_vc t ex_tm_rev = ValidAtTime ex_vc t ex_tm"
    by (simp add: ex_vc_def)
  from single_match_any_order [OF m b others] perm same
  show ?thesis by blast
qed

text \<open>
  Claim C6. Copies of a token are counted one by one: when the entity presents \<open>k\<close>
  copies of a token that passes all the checks of some candidate and the threshold is
  \<open>k\<close>, the threshold check passes, \<^verbatim>\<open>NewVerify\<close> returns \<open>k\<close> copies of the time of the
  token and \<^verbatim>\<open>Verify\<close> returns no error. This holds for every \<open>k\<close>, so for every
  \<open>k \<ge> 1\<close>.
\<close>

theorem NewVerify_counts_copies:
  assumes "threshold p = int k" and "Timestamps entity = (replicate k t, None)"
    and "SignatureContent entity = Inr sc" and "VerificationContent entity = Inr vc"
    and "ca \<in> set (TSACertificateAuthorities (trustedMaterial p))"
    and "candidate_time X t (GetSignature sc) (trustedMaterial p) vc ca \<noteq> None"
  shows "\<exists>T. timestamp_result X t (GetSignature sc) (trustedMaterial p) vc = Inr T
           \<and> fst (NewVerify X p entity log) = Inr (replicate k T)
           \<and> fst (Verify X p entity log) = None"
proof -
  from assms(5,6)
  have "\<exists>ca \<in> set (TSACertificateAuthorities (trustedMaterial p)).
          candidate_time X t (GetSignature sc) (trustedMaterial p) vc ca \<noteq> None"
    by blast
  from first_match_exists [OF this] obtain pre m post T where
    "TSACertificateAuthorities (trustedMaterial p) = pre @ m # post"
    "\<forall>ca \<in> set pre. candidate_time X t (GetSignature sc) (trustedMaterial p) vc ca = None"
    "candidate_time X t (GetSignature sc) (trustedMaterial p) vc m = Some T"
    by blast
  then have T: "timestamp_result X t (GetSignature sc) (trustedMaterial p) vc = Inr T"
    by (rule timestamp_result_first_match)
  have k: "threshold p \<le> int (length (replicate k t))"
    using assms(1) by simp
  have "list_all2 (\<lambda>t T. timestamp_result X t (GetSignature sc) (trustedMaterial p) vc = Inr T)
          (replicate k t) (replicate k T)"
    using T by (simp add: list_all2_conv_all_nth)
  from NewVerify_loop_ok [OF this, of "[]"]
  have ok: "fst (NewVerify X p entity log) = Inr (replicate k T)"
    by (simp add: NewVerify_reaches_loop [OF assms(2) k assms(3,4)])
  then have "fst (Verify X p entity log) = None"
    by (simp add: Verify_fst)
  with T ok show ?thesis by blast
qed

theorem NewVerify_counts_copies_witness:
  "fst (NewVerify ex_X (NewTimestampAuthorityVerifier ex_tm 3) ex_entity_copies []) = Inr [15, 15, 15]
   \<and> fst (Verify ex_X (NewTimestampAuthorityVerifier ex_tm 3) ex_entity_copies []) = None"
proof -
  have k: "threshold (NewTimestampAuthorityVerifier ex_tm 3) = int 3"
    by (simp add: NewTimestampAuthorityVerifier_def)
  have tss: "Timestamps ex_entity_copies = (replicate 3 [3, 15], None)"
    and sc: "SignatureContent ex_entity_copies = Inr ex_sc"
    and vc: "VerificationContent ex_entity_copies = Inr ex_vc"
    by (simp_all add: ex_entity_copies_def)
  have ca: "ex_ca_a \<in> set (TSACertificateAuthorities
                              (trustedMaterial (NewTimestampAuthorityVerifier ex_tm 3)))"
    by (simp add: NewTimestampAuthorityVerifier_def ex_tm_def)
  have passes: "candidate_time ex_X [3, 15] (GetSignature ex_sc)
                 (trustedMaterial (NewTimestampAuthorityVerifier ex_tm 3)) ex_vc ex_ca_a \<noteq> None"
    by (simp add: eval_defs ex_defs NewTimestampAuthorityVerifier_def)
  have T: "timestamp_result ex_X [3, 15] (GetSignature ex_sc)
             (trustedMaterial (NewTimestampAuthorityVerifier ex_tm 3)) ex_vc = Inr 15"
    by (simp add: eval_defs ex_defs NewTimestampAuthorityVerifier_def)
  from NewVerify_counts_copies [OF k tss sc vc ca passes, of "[]"] T
  show ?thesis by (auto simp: numeral_3_eq_3)
qed

text \<open>
  Claim C7. When the threshold check passes and both contents are retrieved, so that the
  loop over the tokens is reached, \<^verbatim>\<open>NewVerify\<close> returns a sequence of times exactly when
  that sequence has one time for each token, at each position the time that
  \<^verbatim>\<open>verifySignedTimestamp\<close> returns for the token at that position. The times are left in
  the order of the tokens: in the witness they come out as 30, then 15.
\<close>

theorem NewVerify_times_in_input_order:
  assumes "Timestamps entity = (tss, None)" and "threshold p \<le> int (length tss)"
    and "SignatureContent entity = Inr sc" and "VerificationContent entity = Inr vc"
  shows "fst (NewVerify X p entity log) = Inr vts \<longleftrightarrow>
           length vts = length tss
           \<and> (\<forall>i < length tss.
                 timestamp_result X (tss ! i) (GetSignature sc) (trustedMaterial p) vc
                   = Inr (vts ! i))"
proof
  assume "fst (NewVerify X p entity log) = Inr vts"
  then have "fst (NewVerify_loop X (GetSignature sc) (trustedMaterial p) vc tss []
                (log @ [Call_Timestamps, Call_SignatureContent, Call_GetSignature,
                        Call_VerificationContent])) = Inr vts"
    by (simp add: NewVerify_reaches_loop [OF assms])
  from NewVerify_loop_Inr [OF this]
  have "list_all2 (\<lambda>t T. timestamp_result X t (GetSignature sc) (trustedMaterial p) vc = Inr T)
          tss vts"
    by simp
  then show "length vts = length tss
           \<and> (\<forall>i < length tss.
                 timestamp_result X (tss ! i) (GetSignature sc) (trustedMaterial p) vc
                   = Inr (vts ! i))"
    by (simp add: list_all2_conv_all_nth)
next
  assume "length vts = length tss
           \<and> (\<forall>i < length tss.
                 timestamp_result X (tss ! i) (GetSignature sc) (trustedMaterial p) vc
                   = Inr (vts ! i))"
  then have "list_all2 (\<lambda>t T. timestamp_result X t (GetSignature sc) (trustedMaterial p) vc = Inr T)
          tss vts"
    by (simp add: list_all2_conv_all_nth)
  from NewVerify_loop_ok [OF this, of "[]"]
  show "fst (NewVerify X p entity log) = Inr vts"
    by (simp add: NewVerify_reaches_loop [OF assms])
qed

theorem NewVerify_times_in_input_order_witness:
  "fst (NewVerify ex_X (NewTimestampAuthorityVerifier ex_tm 2) ex_entity []) = Inr [30, 15]
   \<and> timestamp_result ex_X [5, 30] ex_sig ex_tm ex_vc = Inr 30
   \<and> timestamp_result ex_X [3, 15] ex_sig ex_tm ex_vc = Inr 15"
proof -
  have tss: "Timestamps ex_entity = ([[5, 30], [3, 15]], None)"
    and sc: "SignatureContent ex_entity = Inr ex_sc"
    and vc: "VerificationContent ex_entity = Inr ex_vc"
    by (simp_all add: ex_entity_def)
  have k: "threshold (NewTimestampAuthorityVerifier ex_tm 2)
             \<le> int (length [[5, 30], [3, 15 :: 8 word]])"
    by (simp add: NewTimestampAuthorityVerifier_def)
  have first: "timestamp_result ex_X [5, 30] ex_sig ex_tm ex_vc = Inr 30"
    by (simp add: eval_defs ex_defs)
  have second: "timestamp_result ex_X [3, 15] ex_sig ex_tm ex_vc = Inr 15"
    by (simp add: eval_defs ex_defs)
  have "\<forall>i < length [[5, 30], [3, 15 :: 8 word]].
          timestamp_result ex_X ([[5, 30], [3, 15]] ! i) (GetSignature ex_sc)
            (trustedMaterial (NewTimestampAuthorityVerifier ex_tm 2)) ex_vc = Inr ([30, 15] ! i)"
    using first second
    by (simp add: ex_sc_def NewTimestampAuthorityVerifier_def less_Suc_eq nth_Cons')
  with NewVerify_times_in_input_order [OF tss k sc vc, of ex_X "[]" "[30, 15]"]
  show ?thesis using first second by simp
qed

text \<open>
  Claim C8. \<^verbatim>\<open>Verify\<close> is \<^verbatim>\<open>NewVerify\<close> with the verified times dropped: it returns no
  error exactly when \<^verbatim>\<open>NewVerify\<close> returns times, it returns an error exactly when
  \<^verbatim>\<open>NewVerify\<close> returns that same error, and it makes the same calls.
\<close>

theorem Verify_discards_times:
  "(fst (Verify X p entity log) = None \<longleftrightarrow> (\<exists>vts. fst (NewVerify X p entity log) = Inr vts))
   \<and> (\<forall>err. fst (Verify X p entity log) = Some err \<longleftrightarrow> fst (NewVerify X p entity log) = Inl err)
   \<and> snd (Verify X p entity log) = snd (NewVerify X p entity log)"
  by (auto simp: Verify_def split: prod.split sum.split)

theorem Verify_discards_times_witness:
  "fst (NewVerify ex_X (NewTimestampAuthorityVerifier ex_tm 2) ex_entity []) = Inr [30, 15]
   \<and> fst (Verify ex_X (NewTimestampAuthorityVerifier ex_tm 2) ex_entity []) = None
   \<and> fst (NewVerify ex_X (NewTimestampAuthorityVerifier ex_tm 2) ex_entity_one [])
       = Inl (NotEnoughSignedTimestamps 1 2)
   \<and> fst (Verify ex_X (NewTimestampAuthorityVerifier ex_tm 2) ex_entity_one [])
       = Some (NotEnoughSignedTimestamps 1 2)"
  using Verify_discards_times [of ex_X "NewTimestampAuthorityVerifier ex_tm 2" ex_entity "[]"]
    Verify_discards_times [of ex_X "NewTimestampAuthorityVerifier ex_tm 2" ex_entity_one "[]"]
  by (simp add: run_defs ex_defs)

text \<open>
  Claim C9. When the candidates before \<open>m\<close> all reject the token and \<open>m\<close> passes it with
  time \<open>T\<close>, \<^verbatim>\<open>verifySignedTimestamp\<close> returns \<open>T\<close>, whatever the candidates after \<open>m\<close>
  would answer, and calls nothing for them: its log is the calls of the candidates up to
  \<open>m\<close>, and it verifies the token once for each of these and no more. In the witness two
  candidates pass, with times 30 and 25, and the earlier one decides.
\<close>

theorem first_passing_candidate_wins:
  assumes "TSACertificateAuthorities tm = pre @ m # post"
    and "\<forall>ca \<in> set pre. candidate_time X tok sig tm vc ca = None"
    and "candidate_time X tok sig tm vc m = Some T"
  shows "verifySignedTimestamp X tok sig tm vc log =
           (Inr T, log @ Call_TSACertificateAuthorities
                     # concat (map (candidate_calls X tok sig tm vc) (pre @ [m])))
       \<and> length (filter is_VerifyTimestampResponse
                   (snd (verifySignedTimestamp X tok sig tm vc log)))
           = length (filter is_VerifyTimestampResponse log) + length pre + 1"
proof -
  have run: "verifySignedTimestamp X tok sig tm vc log =
           (Inr T, log @ Call_TSACertificateAuthorities
                     # concat (map (candidate_calls X tok sig tm vc) (pre @ [m])))"
    using loop_first_match [OF assms(2,3)]
    by (simp add: verifySignedTimestamp_def assms(1))
  have "length (filter is_VerifyTimestampResponse
                  (concat (map (candidate_calls X tok sig tm vc) (pre @ [m]))))
          = length (pre @ [m])"
    by (rule count_candidate_calls)
  then have "length (filter is_VerifyTimestampResponse
                   (snd (verifySignedTimestamp X tok sig tm vc log)))
           = length (filter is_VerifyTimestampResponse log) + length pre + 1"
    by (simp add: run)
  with run show ?thesis by blast
qed

theorem first_passing_candidate_wins_witness:
  "candidate_time ex_Y [3, 25] ex_sig ex_tm_abc ex_vc ex_ca_b = Some 30
   \<and> candidate_time ex_Y [3, 25] ex_sig ex_tm_abc ex_vc ex_ca_c = Some 25
   \<and> verifySignedTimestamp ex_Y [3, 25] ex_sig ex_tm_abc ex_vc [] =
       (Inr 30,
        [Call_TSACertificateAuthorities,
         Call_VerifyTimestampResponse [3, 25] ex_sig (trustedRootVerificationOptions ex_ca_a),
         Call_Verify (Leaf ex_ca_a) (verificationOptions ex_ca_a 25),
         Call_VerifyTimestampResponse [3, 25] ex_sig (trustedRootVerificationOptions ex_ca_b),
         Call_Verify (Leaf ex_ca_b) (verificationOptions ex_ca_b 30),
         Call_ValidAtTime 30])"
proof -
  have cas: "TSACertificateAuthorities ex_tm_abc = [ex_ca_a] @ ex_ca_b # [ex_ca_c]"
    by (simp add: ex_tm_abc_def)
  have a: "\<forall>ca \<in> set [ex_ca_a]. candidate_time ex_Y [3, 25] ex_sig ex_tm_abc ex_vc ca = None"
    by (simp add: eval_defs ex_defs)
  have b: "candidate_time ex_Y [3, 25] ex_sig ex_tm_abc ex_vc ex_ca_b = Some 30"
    and c: "candidate_time ex_Y [3, 25] ex_sig ex_tm_abc ex_vc ex_ca_c = Some 25"
    by (simp_all add: eval_defs ex_defs)
  have calls: "candidate_calls ex_Y [3, 25] ex_sig ex_tm_abc ex_vc ex_ca_a =
        [Call_VerifyTimestampResponse [3, 25] ex_sig (trustedRootVerificationOptions ex_ca_a),
         Call_Verify (Leaf ex_ca_a) (verificationOptions ex_ca_a 25)]"
    "candidate_calls ex_Y [3, 25] ex_sig ex_tm_abc ex_vc ex_ca_b =
        [Call_VerifyTimestampResponse [3, 25] ex_sig (trustedRootVerificationOptions ex_ca_b),
         Call_Verify (Leaf ex_ca_b) (verificationOptions ex_ca_b 30),
         Call_ValidAtTime 30]"
    by (simp_all add: eval_defs ex_defs)
  from first_passing_candidate_wins [OF cas a b, of "[]"] b c
  show ?thesis by (simp add: calls)
qed

text \<open>
  Claim C10. With threshold 0 and an empty list of tokens retrieved without error, the
  threshold check passes and \<^verbatim>\<open>NewVerify\<close> goes on to retrieve the signature content and
  the verification content: an error of either retrieval is returned as it is; when both
  succeed the result is the empty sequence of times, and the log holds the four calls
  to the entity and no call that verifies a token or a certificate chain.
\<close>

theorem NewVerify_threshold_zero_empty:
  assumes "threshold p = 0" and "Timestamps entity = ([], None)"
  shows "NewVerify X p entity log =
    (case SignatureContent entity of
       Inl err \<Rightarrow> (Inl err, log @ [Call_Timestamps, Call_SignatureContent])
     | Inr sigContent \<Rightarrow>
         (case VerificationContent entity of
            Inl err \<Rightarrow> (Inl err, log @ [Call_Timestamps, Call_SignatureContent,
                                         Call_GetSignature, Call_VerificationContent])
          | Inr verificationContent \<Rightarrow>
              (Inr [], log @ [Call_Timestamps, Call_SignatureContent,
                              Call_GetSignature, Call_VerificationContent])))"
  using assms by (simp add: NewVerify_def split: sum.split)

theorem NewVerify_threshold_zero_empty_witness:
  "NewVerify ex_X (NewTimestampAuthorityVerifier ex_tm 0) ex_entity_empty [] =
     (Inr [], [Call_Timestamps, Call_SignatureContent, Call_GetSignature,
               Call_VerificationContent])"
proof -
  have zero: "threshold (NewTimestampAuthorityVerifier ex_tm 0) = 0"
    by (simp add: NewTimestampAuthorityVerifier_def)
  have empty: "Timestamps ex_entity_empty = ([], None)"
    by (simp add: ex_entity_empty_def)
  from NewVerify_threshold_zero_empty [OF zero empty, of ex_X "[]"]
  show ?thesis by (simp add: ex_entity_empty_def)
qed

end
